theory Spec2Isabelle
  imports Main
begin

section \<open>Python values\<close>

text \<open>
  The objects that \<open>kernel.py\<close> builds and returns are Python dictionaries, strings,
  integers and lists. A dictionary keeps its keys in insertion order, so it is an
  association list; assigning to a key replaces the value in place or appends the key.
\<close>

datatype pyval =
    PNone
  | PBool bool
  | PInt int
  | PStr string
  | PList "pyval list"
  | PDict "(string \<times> pyval) list"

type_synonym pydict = "(string \<times> pyval) list"

text \<open>Python's truth value of an object, as \<open>if obj:\<close> tests it.\<close>

fun truthy :: "pyval \<Rightarrow> bool" where
  "truthy PNone = False"
| "truthy (PBool b) = b"
| "truthy (PInt i) = (i \<noteq> 0)"
| "truthy (PStr s) = (s \<noteq> [])"
| "truthy (PList xs) = (xs \<noteq> [])"
| "truthy (PDict d) = (d \<noteq> [])"

text \<open>\<open>d[key] = v\<close>\<close>

fun dict_set :: "pydict \<Rightarrow> string \<Rightarrow> pyval \<Rightarrow> pydict" where
  "dict_set [] key v = [(key, v)]"
| "dict_set ((k, w) # d) key v = (if k = key then (k, v) # d else (k, w) # dict_set d key v)"

text \<open>\<open>d.get(key)\<close>\<close>

fun dict_get :: "pydict \<Rightarrow> string \<Rightarrow> pyval option" where
  "dict_get [] key = None"
| "dict_get ((k, w) # d) key = (if k = key then Some w else dict_get d key)"

text \<open>The entry of a response object; a response that is no dictionary has none.\<close>

fun response_get :: "pyval \<Rightarrow> string \<Rightarrow> pyval option" where
  "response_get (PDict d) key = dict_get d key"
| "response_get _ key = None"

section \<open>The kernel object and its collaborators\<close>

text \<open>
  \<open>StataKernel.__init__\<close> sets the attributes \<open>conf\<close>, \<open>graphs\<close>, \<open>magics\<close>,
  \<open>sc_delimit_mode\<close>, \<open>stata\<close> and \<open>completions\<close>; \<open>execution_count\<close> is the
  attribute of the base class \<open>Kernel\<close> that \<open>do_execute\<close> reads. The classes
  \<open>Config\<close>, \<open>StataMagics\<close>, \<open>StataSession\<close> and \<open>CompletionsManager\<close> are
  imported from other modules, so the types of these objects are parameters.
\<close>

record ('m, 's, 'c, 'cf) kernel =
  conf :: 'cf
  graphs :: pydict
  magics :: 'm
  sc_delimit_mode :: bool
  stata :: 's
  completions :: 'c
  execution_count :: int

text \<open>
  What the body of a method of \<open>kernel.py\<close> does besides computing its result, in
  the order in which it does it: the reads and writes of \<open>self.sc_delimit_mode\<close>, the
  calls of the collaborators, and the messages handed to \<open>self.send_response\<close>
  (a method of the base class, which sends them on the iopub socket).
\<close>

datatype event =
    ReadMode bool
  | WriteMode bool
  | NewCodeManager string bool
  | GetText
  | MagicsMagic string
  | StataDo string string string
  | MagicsPost
  | CompletionsRefresh
  | SendResponse string pyval

text \<open>
  The methods of the imported classes that \<open>kernel.py\<close> calls. \<open>CodeManager\<close> is the
  constructor \<open>CodeManager(code, sc_delimit_mode)\<close>; \<open>cm_is_complete\<close> and
  \<open>cm_ends_sc\<close> are the attributes \<open>is_complete\<close> and \<open>ends_sc\<close> of the object it
  builds and \<open>cm_get_text\<close> is \<open>cm.get_text(conf)\<close>, which gives \<open>text_to_run\<close>,
  \<open>md5\<close> and \<open>text_to_exclude\<close>. The constructor is given the text and the flag
  only. The other methods are given the kernel itself (\<open>magics.magic(code, self)\<close>,
  \<open>magics.post(self)\<close>, \<open>completions.refresh(self)\<close>) or hold it since
  \<open>__init__\<close> (\<open>StataSession(self, self.conf)\<close>), so each of them takes the kernel
  and returns it, possibly changed. \<open>quit_early\<close> is the attribute
  \<open>magics.quit_early\<close>. \<open>stata_do\<close> returns the pair \<open>rc, res\<close>.
\<close>

record ('m, 's, 'c, 'cf, 'cm, 'r) collaborators =
  CodeManager :: "string \<Rightarrow> bool \<Rightarrow> 'cm"
  cm_is_complete :: "'cm \<Rightarrow> bool"
  cm_ends_sc :: "'cm \<Rightarrow> bool"
  cm_get_text :: "'cm \<Rightarrow> 'cf \<Rightarrow> string \<times> string \<times> string"
  magic :: "string \<Rightarrow> ('m, 's, 'c, 'cf) kernel \<Rightarrow> string \<times> ('m, 's, 'c, 'cf) kernel"
  quit_early :: "'m \<Rightarrow> pyval"
  stata_do :: "string \<Rightarrow> string \<Rightarrow> string \<Rightarrow> ('m, 's, 'c, 'cf) kernel
                 \<Rightarrow> (int \<times> 'r) \<times> ('m, 's, 'c, 'cf) kernel"
  post :: "('m, 's, 'c, 'cf) kernel \<Rightarrow> ('m, 's, 'c, 'cf) kernel"
  refresh :: "('m, 's, 'c, 'cf) kernel \<Rightarrow> ('m, 's, 'c, 'cf) kernel"

section \<open>The methods of \<open>StataKernel\<close>\<close>

text \<open>
  Every method returns its Python result, the kernel after the call and the events of
  its body.

  \<^verbatim>\<open>
  def is_complete(self, code):
      return CodeManager(code, self.sc_delimit_mode).is_complete
  \<close>
\<close>

definition is_complete ::
  "('m, 's, 'c, 'cf, 'cm, 'r) collaborators \<Rightarrow> string \<Rightarrow> ('m, 's, 'c, 'cf) kernel
     \<Rightarrow> bool \<times> ('m, 's, 'c, 'cf) kernel \<times> event list" where
  "is_complete E code k =
     (let sc = sc_delimit_mode k;
          cm = CodeManager E code sc
      in (cm_is_complete E cm, k, [ReadMode sc, NewCodeManager code sc]))"

text \<open>
  \<^verbatim>\<open>
  def do_is_complete(self, code):
      if self.is_complete(code):
          return {'status': 'complete'}
      return {'status': 'incomplete', 'indent': '    '}
  \<close>
\<close>

definition do_is_complete ::
  "('m, 's, 'c, 'cf, 'cm, 'r) collaborators \<Rightarrow> string \<Rightarrow> ('m, 's, 'c, 'cf) kernel
     \<Rightarrow> pyval \<times> ('m, 's, 'c, 'cf) kernel \<times> event list" where
  "do_is_complete E code k =
     (case is_complete E code k of (complete, k1, t1) \<Rightarrow>
        if complete then (PDict [(''status'', PStr ''complete'')], k1, t1)
        else (PDict [(''status'', PStr ''incomplete''), (''indent'', PStr ''    '')], k1, t1))"

text \<open>
  \<open>do_execute(self, code, silent, ...)\<close>, lines 47 to 92. The remaining arguments
  (\<open>store_history\<close>, \<open>user_expressions\<close>, \<open>allow_stdin\<close>) are not used by the body.
  The return code \<open>rc\<close> is an integer, tested by \<open>if rc:\<close>.
\<close>

definition do_execute ::
  "('m, 's, 'c, 'cf, 'cm, 'r) collaborators \<Rightarrow> string \<Rightarrow> bool \<Rightarrow> ('m, 's, 'c, 'cf) kernel
     \<Rightarrow> pyval \<times> ('m, 's, 'c, 'cf) kernel \<times> event list" where
  "do_execute E code silent k =
     (case is_complete E code k of (complete, k1, t1) \<Rightarrow>
      if \<not> complete
      then (PDict [(''status'', PStr ''error''),
                   (''execution_count'', PInt (execution_count k1))], k1, t1)
      else
       (case magic E code k1 of (code', k2) \<Rightarrow>
        let t2 = t1 @ [MagicsMagic code] in
        if truthy (quit_early E (magics k2))
        then (quit_early E (magics k2), k2, t2)
        else
         (let sc = sc_delimit_mode k2;
              cm = CodeManager E code' sc
          in
          case cm_get_text E cm (conf k2) of (text_to_run, md5, text_to_exclude) \<Rightarrow>
          case stata_do E text_to_run md5 text_to_exclude k2 of ((rc, res), k3) \<Rightarrow>
          let k4 = post E k3;
              t3 = t2 @ [ReadMode sc, NewCodeManager code' sc, GetText,
                         StataDo text_to_run md5 text_to_exclude, MagicsPost];
              return_obj0 = [(''execution_count'', PInt (execution_count k4))];
              return_obj =
                (if rc \<noteq> 0 then dict_set return_obj0 ''status'' (PStr ''error'')
                 else dict_set (dict_set (dict_set return_obj0
                        ''status'' (PStr ''ok''))
                        ''payload'' (PList []))
                        ''user_expressions'' (PDict []))
          in
          if silent
          then (PDict return_obj, refresh E k4, t3 @ [CompletionsRefresh])
          else
           (let old = sc_delimit_mode k4;
                t4 = t3 @ [ReadMode old] @
                     (if cm_ends_sc E cm \<noteq> old
                      then [SendResponse ''stream''
                              (PDict [(''text'', PStr (''delimiter now '' @
                                         (if cm_ends_sc E cm then '';'' else ''cr''))),
                                      (''name'', PStr ''stdout'')])]
                      else []) @
                     [WriteMode (cm_ends_sc E cm)];
                k5 = k4\<lparr>sc_delimit_mode := cm_ends_sc E cm\<rparr>
            in (PDict return_obj, refresh E k5, t4 @ [CompletionsRefresh])))))"

section \<open>The Tokenizer\<close>

text \<open>
  Modelled from the spec: the class \<open>CodeManager\<close> of \<open>code_manager.py\<close>, which is
  not among the sources; \<open>kernel.py\<close> only calls it. The definitions of this section
  follow the Tokenizer/Chunker of the specification (sections 4.1, 4.3 and 7) and the
  docstring of \<open>do_is_complete\<close>:
  \<^item> a line that holds the continuation marker \<open>///\<close> is joined with the next line, the
    marker and what follows it on the line being discarded;
  \<^item> a trailing comment starts at \<open>//\<close>, a full-line comment at a leading \<open>*\<close>; neither
    is recognised inside a string literal;
  \<^item> an opening brace opens a block if nothing but whitespace follows it on the line, a
    closing brace closes one if it has only whitespace around it;
  \<^item> \<open>#delimit ;\<close> and \<open>#delimit cr\<close> switch the delimiter mode for the rest of the
    text, and the mode in effect at the end is reported;
  \<^item> the text is complete iff the brace depth is back at zero and no continuation is
    open at its end; malformed or unterminated brace nesting signals an incomplete text.
  The depth counts the open blocks; a closing brace met while no block is open is
  malformed nesting, and the depth is then \<open>None\<close>. The specification names no other
  blocker, so a last statement without its semicolon does not make a text incomplete. A
  newline at the very end of the text starts no further line.
\<close>

fun split_lines :: "string \<Rightarrow> string list" where
  "split_lines [] = []"
| "split_lines (c # cs) =
     (if c = CHR 0x0A then (if cs = [] then [[]] else [] # split_lines cs)
      else (case split_lines cs of [] \<Rightarrow> [[c]] | l # ls \<Rightarrow> (c # l) # ls))"

definition is_blank :: "char \<Rightarrow> bool" where
  "is_blank c = (c = CHR '' '' \<or> c = CHR 0x09 \<or> c = CHR 0x0D)"

definition strip :: "string \<Rightarrow> string" where
  "strip s = rev (dropWhile is_blank (rev (dropWhile is_blank s)))"

text \<open>
  The code of one physical line and whether the line holds the continuation marker; the
  flag \<open>q\<close> says that the scan is inside a string literal.
\<close>

fun scan_code :: "bool \<Rightarrow> string \<Rightarrow> string \<times> bool" where
  "scan_code q [] = ([], False)"
| "scan_code q (c # cs) =
     (if \<not> q \<and> c = CHR ''/'' \<and> take 2 cs = ''//'' then ([], True)
      else if \<not> q \<and> c = CHR ''/'' \<and> take 1 cs = ''/'' then ([], False)
      else (case scan_code (if c = CHR 0x22 then \<not> q else q) cs of
              (r, m) \<Rightarrow> (c # r, m)))"

definition scan_line :: "string \<Rightarrow> string \<times> bool" where
  "scan_line l =
     (if take 1 (dropWhile is_blank l) = ''*'' then ([], False) else scan_code False l)"

text \<open>
  Continuation joining: the logical lines, and whether the last physical line asks for a
  continuation that the text does not hold.
\<close>

fun join_lines :: "(string \<times> bool) list \<Rightarrow> string list \<times> bool" where
  "join_lines [] = ([], False)"
| "join_lines [(l, m)] = ([l], m)"
| "join_lines ((l, m) # (l', m') # rest) =
     (if m then join_lines ((l @ l', m') # rest)
      else (case join_lines ((l', m') # rest) of (ls, oc) \<Rightarrow> (l # ls, oc)))"

datatype line_kind = Directive bool | BlockOpen | BlockClose | Plain

definition classify :: "string \<Rightarrow> line_kind" where
  "classify l =
     (let s = strip l in
      if take 8 s = ''#delimit'' \<and> strip (drop 8 s) = '';'' then Directive True
      else if take 8 s = ''#delimit'' \<and> strip (drop 8 s) = ''cr'' then Directive False
      else if s = ''}'' then BlockClose
      else if s \<noteq> [] \<and> last s = CHR ''{'' then BlockOpen
      else Plain)"

fun track_depth :: "nat \<Rightarrow> line_kind list \<Rightarrow> nat option" where
  "track_depth d [] = Some d"
| "track_depth d (BlockOpen # ks) = track_depth (Suc d) ks"
| "track_depth d (BlockClose # ks) = (if d = 0 then None else track_depth (d - 1) ks)"
| "track_depth d (_ # ks) = track_depth d ks"

fun track_mode :: "bool \<Rightarrow> line_kind list \<Rightarrow> bool" where
  "track_mode sc [] = sc"
| "track_mode sc (Directive b # ks) = track_mode b ks"
| "track_mode sc (_ # ks) = track_mode sc ks"

record tokens =
  tk_lines :: "string list"
  tk_open_continuation :: bool
  tk_depth :: "nat option"
  tk_ends_sc :: bool

definition line_kinds :: "string \<Rightarrow> line_kind list" where
  "line_kinds text = map classify (fst (join_lines (map scan_line (split_lines text))))"

definition open_continuation :: "string \<Rightarrow> bool" where
  "open_continuation text = snd (join_lines (map scan_line (split_lines text)))"

text \<open>
  Modelled from the spec: the object that \<open>CodeManager(code, sc_delimit_mode)\<close> builds
  (\<open>code_manager.py\<close> is missing): the logical lines, the open continuation, the brace
  depth at the end of the text and the delimiter mode at its end.
\<close>

definition tokenize :: "string \<Rightarrow> bool \<Rightarrow> tokens" where
  "tokenize text sc =
     \<lparr>tk_lines = fst (join_lines (map scan_line (split_lines text))),
      tk_open_continuation = open_continuation text,
      tk_depth = track_depth 0 (line_kinds text),
      tk_ends_sc = track_mode sc (line_kinds text)\<rparr>"

text \<open>
  Modelled from the spec: the attribute \<open>is_complete\<close> of a \<open>CodeManager\<close>
  (\<open>code_manager.py\<close> is missing): "a submission is complete iff brace depth returns to
  zero and no other structural blocker remains at end-of-text", the blocker of section 7
  being an open continuation, and malformed nesting being incomplete by section 4.1.
\<close>

definition tk_is_complete :: "tokens \<Rightarrow> bool" where
  "tk_is_complete tk = (tk_depth tk = Some 0 \<and> \<not> tk_open_continuation tk)"

text \<open>
  The brace structure of a text, stated without the depth counter: the block braces in
  order, matched as brackets are (a closer pairs with the nearest opener still
  unpaired). \<open>match_braces\<close> returns the openers and the closers left without a
  partner, by position; \<open>unmatched_open\<close> counts the unterminated blocks of a text.
\<close>

fun match_braces :: "nat list \<Rightarrow> nat \<Rightarrow> line_kind list \<Rightarrow> nat list \<times> nat list" where
  "match_braces st i [] = (st, [])"
| "match_braces st i (BlockOpen # ks) = match_braces (i # st) (Suc i) ks"
| "match_braces st i (BlockClose # ks) =
     (case st of
        [] \<Rightarrow> (case match_braces [] (Suc i) ks of (uo, uc) \<Rightarrow> (uo, i # uc))
      | _ # st' \<Rightarrow> match_braces st' (Suc i) ks)"
| "match_braces st i (_ # ks) = match_braces st (Suc i) ks"

definition unmatched_open :: "string \<Rightarrow> nat" where
  "unmatched_open text = length (fst (match_braces [] 0 (line_kinds text)))"

section \<open>The Session Dispatcher\<close>

text \<open>
  Modelled from the spec: the method \<open>StataSession.do\<close> of \<open>stata_session.py\<close>, which
  is not among the sources; \<open>kernel.py\<close> only calls it. The definitions follow the
  Session Dispatcher of the specification (sections 4.3, 6 and 7): the statements of the
  plan are sent to the external process one at a time and in order; the adapter's
  \<open>send\<close> answers with a return code, the captured output and the side-channel events,
  or does not answer at all (the fatal condition); the first statement that does not
  complete normally halts the plan, and the overall status is \<open>Completed\<close> only if every
  statement completed without error. The dispatcher records, per statement, whether it
  succeeded, failed or was not attempted, and which statements it sent.
\<close>

datatype reply = Reply int string "string list" | NoReply

datatype outcome = Succeeded | Failed | Unattempted

datatype dispatch_status = Completed | Errored int | Fatal

record dispatch_result =
  status :: dispatch_status
  captured :: "string list"
  outcomes :: "outcome list"
  sent :: "string list"

text \<open>
  Modelled from the spec: \<open>dispatch(chunkPlan) -> DispatchResult\<close> of section 4.3
  (\<open>stata_session.py\<close> is missing), with the default policy: halt the remaining
  statements of the plan on the first error.
\<close>

fun dispatch ::
  "('x \<Rightarrow> string \<Rightarrow> reply \<times> 'x) \<Rightarrow> 'x \<Rightarrow> string list \<Rightarrow> dispatch_result \<times> 'x" where
  "dispatch send x [] =
     (\<lparr>status = Completed, captured = [], outcomes = [], sent = []\<rparr>, x)"
| "dispatch send x (s # ss) =
     (case send x s of
        (NoReply, x') \<Rightarrow>
          (\<lparr>status = Fatal, captured = [],
            outcomes = Failed # replicate (length ss) Unattempted, sent = [s]\<rparr>, x')
      | (Reply rc out evs, x') \<Rightarrow>
          if rc \<noteq> 0
          then (\<lparr>status = Errored rc, captured = [out],
                 outcomes = Failed # replicate (length ss) Unattempted, sent = [s]\<rparr>, x')
          else (case dispatch send x' ss of
                  (r, x'') \<Rightarrow>
                    (r\<lparr>captured := out # captured r,
                       outcomes := Succeeded # outcomes r,
                       sent := s # sent r\<rparr>, x'')))"

text \<open>
  The state of the external process after the statements \<open>ss\<close> have all completed
  normally, if they do.
\<close>

fun run_ok :: "('x \<Rightarrow> string \<Rightarrow> reply \<times> 'x) \<Rightarrow> 'x \<Rightarrow> string list \<Rightarrow> 'x option" where
  "run_ok send x [] = Some x"
| "run_ok send x (s # ss) =
     (case send x s of
        (Reply rc out evs, x') \<Rightarrow> if rc = 0 then run_ok send x' ss else None
      | (NoReply, x') \<Rightarrow> None)"

fun normal_reply :: "reply \<Rightarrow> bool" where
  "normal_reply (Reply rc out evs) = (rc = 0)"
| "normal_reply NoReply = False"

text \<open>
  An external process for the examples: it keeps the statements it was sent, and answers
  the statement \<open>error\<close> with return code 198 and every other statement with 0.
\<close>

definition echo_send :: "string list \<Rightarrow> string \<Rightarrow> reply \<times> string list" where
  "echo_send x s = (Reply (if s = ''error'' then 198 else 0) s [], x @ [s])"

section \<open>Reading the events of a call\<close>

fun mode_reads :: "event list \<Rightarrow> bool list" where
  "mode_reads [] = []"
| "mode_reads (ReadMode b # t) = b # mode_reads t"
| "mode_reads (_ # t) = mode_reads t"

fun mode_writes :: "event list \<Rightarrow> bool list" where
  "mode_writes [] = []"
| "mode_writes (WriteMode b # t) = b # mode_writes t"
| "mode_writes (_ # t) = mode_writes t"

fun notifications :: "event list \<Rightarrow> (string \<times> pyval) list" where
  "notifications [] = []"
| "notifications (SendResponse ty c # t) = (ty, c) # notifications t"
| "notifications (_ # t) = notifications t"

text \<open>The texts dispatched to the session, and the texts tokenized.\<close>

fun dispatched :: "event list \<Rightarrow> string list" where
  "dispatched [] = []"
| "dispatched (StataDo txt md5 excl # t) = txt # dispatched t"
| "dispatched (_ # t) = dispatched t"

fun tokenized :: "event list \<Rightarrow> string list" where
  "tokenized [] = []"
| "tokenized (NewCodeManager code sc # t) = code # tokenized t"
| "tokenized (_ # t) = tokenized t"

text \<open>
  The calls that are handed the kernel, or hold it, and so can change it, together with
  the write of the flag.
\<close>

fun can_change_kernel :: "event \<Rightarrow> bool" where
  "can_change_kernel (WriteMode b) = True"
| "can_change_kernel (MagicsMagic code) = True"
| "can_change_kernel (StataDo txt md5 excl) = True"
| "can_change_kernel MagicsPost = True"
| "can_change_kernel CompletionsRefresh = True"
| "can_change_kernel _ = False"

text \<open>
  The chunking pass of a submission is the construction of \<open>cm\<close> and the call
  \<open>cm.get_text(self.conf)\<close> of lines 58 and 59; the events before that call and after it.
\<close>

definition before_chunking :: "event list \<Rightarrow> event list" where
  "before_chunking t = takeWhile (\<lambda>e. e \<noteq> GetText) t"

definition after_chunking :: "event list \<Rightarrow> event list" where
  "after_chunking t = drop 1 (dropWhile (\<lambda>e. e \<noteq> GetText) t)"

fun is_magic_call :: "event \<Rightarrow> bool" where
  "is_magic_call (MagicsMagic code) = True"
| "is_magic_call _ = False"

definition after_magic :: "event list \<Rightarrow> event list" where
  "after_magic t = drop 1 (dropWhile (\<lambda>e. \<not> is_magic_call e) t)"

text \<open>
  The collaborators leave \<open>sc_delimit_mode\<close> as it is: the condition under which the
  flag of the kernel after a call can be told from the events of \<open>do_execute\<close> alone.
\<close>

definition keeps_mode :: "('m, 's, 'c, 'cf, 'cm, 'r) collaborators \<Rightarrow> bool" where
  "keeps_mode E =
     ((\<forall>code k. sc_delimit_mode (snd (magic E code k)) = sc_delimit_mode k) \<and>
      (\<forall>txt md5 excl k. sc_delimit_mode (snd (stata_do E txt md5 excl k)) = sc_delimit_mode k) \<and>
      (\<forall>k. sc_delimit_mode (post E k) = sc_delimit_mode k) \<and>
      (\<forall>k. sc_delimit_mode (refresh E k) = sc_delimit_mode k))"

text \<open>The notification of lines 83 to 87 for the delimiter mode \<open>sc\<close>.\<close>

definition delimiter_message :: "bool \<Rightarrow> string \<times> pyval" where
  "delimiter_message sc =
     (''stream'', PDict [(''text'', PStr (''delimiter now '' @ (if sc then '';'' else ''cr''))),
                         (''name'', PStr ''stdout'')])"

section \<open>A concrete kernel\<close>

text \<open>
  Collaborators on which the theorems below are evaluated: the Tokenizer above for
  \<open>CodeManager\<close>, with the logical lines as the text to run; a \<open>magic\<close> that
  intercepts a text starting with \<open>%\<close> and leaves its response in \<open>quit_early\<close>; a
  session that answers with the return code it holds; a completions manager that counts
  its refreshes.
\<close>

definition unlines :: "string list \<Rightarrow> string" where
  "unlines ls = concat (map (\<lambda>l. l @ [CHR 0x0A]) ls)"

definition demo_magic ::
  "string \<Rightarrow> (pyval, int, nat, unit) kernel \<Rightarrow> string \<times> (pyval, int, nat, unit) kernel" where
  "demo_magic code k =
     (code, k\<lparr>magics :=
        (if take 1 code = ''%''
         then PDict [(''execution_count'', PInt (execution_count k)),
                     (''status'', PStr ''ok''),
                     (''payload'', PList []),
                     (''user_expressions'', PDict [])]
         else PNone)\<rparr>)"

definition demo :: "(pyval, int, nat, unit, tokens, string) collaborators" where
  "demo =
     \<lparr>CodeManager = tokenize,
      cm_is_complete = tk_is_complete,
      cm_ends_sc = tk_ends_sc,
      cm_get_text = (\<lambda>tk cf. (unlines (tk_lines tk), ''md5'', [])),
      magic = demo_magic,
      quit_early = (\<lambda>m. m),
      stata_do = (\<lambda>txt md5 excl k. ((stata k, txt), k)),
      post = (\<lambda>k. k),
      refresh = (\<lambda>k. k\<lparr>completions := Suc (completions k)\<rparr>)\<rparr>"

text \<open>A kernel whose session will answer \<open>rc\<close>, in delimiter mode \<open>sc\<close>.\<close>

definition demo_kernel :: "int \<Rightarrow> bool \<Rightarrow> (pyval, int, nat, unit) kernel" where
  "demo_kernel rc sc =
     \<lparr>conf = (), graphs = [], magics = PNone, sc_delimit_mode = sc, stata = rc,
      completions = 0, execution_count = 1\<rparr>"

section \<open>The three ways through \<open>do_execute\<close>\<close>

lemmas tokenizer_defs =
  tokenize_def tk_is_complete_def line_kinds_def open_continuation_def scan_line_def
  is_blank_def classify_def strip_def

lemmas demo_defs = demo_def demo_kernel_def demo_magic_def unlines_def

text \<open>The text is not complete: lines 47 and 48.\<close>

lemma do_execute_incomplete:
  assumes "\<not> cm_is_complete E (CodeManager E code (sc_delimit_mode k))"
  shows "do_execute E code silent k =
           (PDict [(''status'', PStr ''error''), (''execution_count'', PInt (execution_count k))],
            k, [ReadMode (sc_delimit_mode k), NewCodeManager code (sc_delimit_mode k)])"
  using assms by (simp add: do_execute_def is_complete_def Let_def)

text \<open>The magic asks to quit early: lines 51 to 55.\<close>

lemma do_execute_intercepted:
  assumes "cm_is_complete E (CodeManager E code (sc_delimit_mode k))"
      and "magic E code k = (code', k2)"
      and "truthy (quit_early E (magics k2))"
  shows "do_execute E code silent k =
           (quit_early E (magics k2), k2,
            [ReadMode (sc_delimit_mode k), NewCodeManager code (sc_delimit_mode k),
             MagicsMagic code])"
  using assms by (simp add: do_execute_def is_complete_def Let_def)

text \<open>The submission is dispatched: lines 58 to 92.\<close>

lemma do_execute_dispatched:
  assumes "cm_is_complete E (CodeManager E code (sc_delimit_mode k))"
      and "magic E code k = (code', k2)"
      and "\<not> truthy (quit_early E (magics k2))"
      and "cm_get_text E (CodeManager E code' (sc_delimit_mode k2)) (conf k2) = (txt, md5, excl)"
      and "stata_do E txt md5 excl k2 = ((rc, res), k3)"
      and "ends = cm_ends_sc E (CodeManager E code' (sc_delimit_mode k2))"
      and "k4 = post E k3"
  shows "do_execute E code silent k =
           (PDict (if rc \<noteq> 0
                   then [(''execution_count'', PInt (execution_count k4)),
                         (''status'', PStr ''error'')]
                   else [(''execution_count'', PInt (execution_count k4)),
                         (''status'', PStr ''ok''),
                         (''payload'', PList []),
                         (''user_expressions'', PDict [])]),
            refresh E (if silent then k4 else k4\<lparr>sc_delimit_mode := ends\<rparr>),
            [ReadMode (sc_delimit_mode k), NewCodeManager code (sc_delimit_mode k),
             MagicsMagic code,
             ReadMode (sc_delimit_mode k2), NewCodeManager code' (sc_delimit_mode k2),
             GetText, StataDo txt md5 excl, MagicsPost] @
            (if silent then []
             else ReadMode (sc_delimit_mode k4) #
                  (if ends \<noteq> sc_delimit_mode k4
                   then [SendResponse (fst (delimiter_message ends)) (snd (delimiter_message ends))]
                   else []) @
                  [WriteMode ends]) @
            [CompletionsRefresh])"
  using assms by (simp add: do_execute_def is_complete_def Let_def delimiter_message_def)

lemma keeps_mode_demo: "keeps_mode demo"
  by (simp add: keeps_mode_def demo_defs)

text \<open>What \<open>keeps_mode\<close> says of each collaborator.\<close>

lemma keeps_mode_magic:
  assumes "keeps_mode E" and "magic E code k = (code', k2)"
  shows "sc_delimit_mode k2 = sc_delimit_mode k"
proof -
  from assms(1) have "sc_delimit_mode (snd (magic E code k)) = sc_delimit_mode k"
    unfolding keeps_mode_def by blast
  with assms(2) show ?thesis by simp
qed

lemma keeps_mode_stata_do:
  assumes "keeps_mode E" and "stata_do E run md5 excl k2 = (r, k3)"
  shows "sc_delimit_mode k3 = sc_delimit_mode k2"
proof -
  from assms(1)
  have "sc_delimit_mode (snd (stata_do E run md5 excl k2)) = sc_delimit_mode k2"
    unfolding keeps_mode_def by blast
  with assms(2) show ?thesis by simp
qed

lemma keeps_mode_post: "keeps_mode E \<Longrightarrow> sc_delimit_mode (post E k) = sc_delimit_mode k"
  unfolding keeps_mode_def by blast

lemma keeps_mode_refresh:
  "keeps_mode E \<Longrightarrow> sc_delimit_mode (refresh E k) = sc_delimit_mode k"
  unfolding keeps_mode_def by blast

section \<open>The Tokenizer: depth, matching and mode\<close>

text \<open>
  The depth counter of the Tokenizer against the matching: it ends at the number of
  openers left without a partner, unless a closer is left without one.
\<close>

lemma track_depth_match_braces:
  "track_depth (length st) ks =
     (if snd (match_braces st i ks) = [] then Some (length (fst (match_braces st i ks))) else None)"
proof (induction ks arbitrary: st i)
  case Nil
  show ?case by simp
next
  case (Cons a ks)
  show ?case
  proof (cases a)
    case (Directive b)
    with Cons.IH [of st "Suc i"] show ?thesis by simp
  next
    case BlockOpen
    with Cons.IH [of "i # st" "Suc i"] show ?thesis by simp
  next
    case BlockClose
    show ?thesis
    proof (cases st)
      case Nil
      with BlockClose show ?thesis
        by (simp split: prod.splits)
    next
      case (Cons j st')
      with BlockClose Cons.IH [of st' "Suc i"] show ?thesis by simp
    qed
  next
    case Plain
    with Cons.IH [of st "Suc i"] show ?thesis by simp
  qed
qed

text \<open>A text with an unterminated block, or with a continuation left open, is incomplete.\<close>

lemma unterminated_is_incomplete:
  assumes "0 < unmatched_open text \<or> open_continuation text"
  shows "\<not> tk_is_complete (tokenize text sc)"
proof -
  have "0 < unmatched_open text \<Longrightarrow> track_depth 0 (line_kinds text) \<noteq> Some 0"
    using track_depth_match_braces [of "[]" "line_kinds text" 0]
    by (simp add: unmatched_open_def split: if_splits)
  with assms show ?thesis
    by (auto simp: tk_is_complete_def tokenize_def)
qed

lemma open_block_kinds: "line_kinds ''foreach i in 1 2 {'' = [BlockOpen]"
  by (simp add: tokenizer_defs)

section \<open>The Session Dispatcher: a prefix that completes\<close>

lemma run_ok_Cons:
  "run_ok send x (s # ss) = Some x' \<Longrightarrow>
     \<exists>out evs x1. send x s = (Reply 0 out evs, x1) \<and> run_ok send x1 ss = Some x'"
  by (auto split: prod.splits reply.splits if_splits)

section \<open>The claims\<close>

text \<open>
  C1 (as stated): \<open>do_execute\<close> reads \<open>sc_delimit_mode\<close> exactly once before chunking
  and writes it exactly once after chunking, with \<open>cm.ends_sc\<close>, whatever \<open>silent\<close> is.
  It does not: for the silent submission \<open>#delimit ;\<close> in mode \<open>cr\<close> the text ends in
  semicolon mode, yet the flag is never written and stays \<open>False\<close> (line 77 returns
  before line 88); and the flag is read twice before \<open>cm.get_text\<close>, once by the
  completeness check of line 47 and once at line 58.
\<close>

theorem silent_submission_writes_no_mode:
  "cm_ends_sc demo (CodeManager demo ''#delimit ;'' False) = True \<and>
   mode_writes (snd (snd (do_execute demo ''#delimit ;'' True (demo_kernel 0 False)))) = [] \<and>
   sc_delimit_mode (fst (snd (do_execute demo ''#delimit ;'' True (demo_kernel 0 False)))) = False \<and>
   mode_reads (before_chunking (snd (snd (do_execute demo ''#delimit ;'' True (demo_kernel 0 False)))))
     = [False, False]"
  by (simp add: do_execute_def is_complete_def Let_def before_chunking_def demo_defs tokenizer_defs)

text \<open>
  C1 (amended): for every submission that is complete and not intercepted, the body of
  \<open>do_execute\<close> reads the flag twice before chunking (in the completeness check, and to
  build \<open>cm\<close>) and does not write it there; when \<open>silent\<close> is false it reads the flag
  once more after chunking and then writes it exactly once, the value written being
  \<open>cm.ends_sc\<close>, whatever the return code; and if the collaborators leave the flag
  alone, this is the value of the flag when \<open>do_execute\<close> returns.
\<close>

theorem delimit_mode_accesses:
  assumes "cm_is_complete E (CodeManager E code (sc_delimit_mode k))"
      and "magic E code k = (code', k2)"
      and "\<not> truthy (quit_early E (magics k2))"
  shows "mode_reads (before_chunking (snd (snd (do_execute E code silent k)))) =
           [sc_delimit_mode k, sc_delimit_mode k2] \<and>
         mode_writes (before_chunking (snd (snd (do_execute E code silent k)))) = [] \<and>
         (\<not> silent \<longrightarrow>
            length (mode_reads (after_chunking (snd (snd (do_execute E code silent k))))) = 1 \<and>
            mode_writes (after_chunking (snd (snd (do_execute E code silent k)))) =
              [cm_ends_sc E (CodeManager E code' (sc_delimit_mode k2))] \<and>
            (keeps_mode E \<longrightarrow>
               sc_delimit_mode (fst (snd (do_execute E code silent k))) =
                 cm_ends_sc E (CodeManager E code' (sc_delimit_mode k))))"
proof -
  obtain run md5 excl
    where g: "cm_get_text E (CodeManager E code' (sc_delimit_mode k2)) (conf k2) = (run, md5, excl)"
    by (cases "cm_get_text E (CodeManager E code' (sc_delimit_mode k2)) (conf k2)") auto
  obtain rc res k3 where d: "stata_do E run md5 excl k2 = ((rc, res), k3)"
    by (cases "stata_do E run md5 excl k2") auto
  note e = do_execute_dispatched [OF assms g d refl refl]
  show ?thesis
    by (cases silent)
       (simp_all add: e before_chunking_def after_chunking_def keeps_mode_refresh
          keeps_mode_magic [OF _ assms(2)])
qed

theorem delimit_mode_accesses_witness:
  "mode_reads (before_chunking (snd (snd (do_execute demo ''#delimit ;'' False (demo_kernel 198 False)))))
     = [False, False] \<and>
   mode_writes (after_chunking (snd (snd (do_execute demo ''#delimit ;'' False (demo_kernel 198 False)))))
     = [True] \<and>
   sc_delimit_mode (fst (snd (do_execute demo ''#delimit ;'' False (demo_kernel 198 False)))) = True"
  using delimit_mode_accesses [of demo "''#delimit ;''" "demo_kernel 198 False" "''#delimit ;''"
          "demo_kernel 198 False" False] keeps_mode_demo
  by (simp add: demo_defs tokenizer_defs)

text \<open>
  C2 (as stated): a \<open>delimiter now\<close> notification is sent whenever the mode at the end
  of a submission differs from the mode at its start, whatever \<open>silent\<close> is. It is not:
  the silent submission \<open>#delimit cr\<close> in semicolon mode ends in mode \<open>cr\<close> and
  nothing is sent.
\<close>

theorem silent_submission_sends_no_notification:
  "sc_delimit_mode (demo_kernel 0 True) = True \<and>
   cm_ends_sc demo (CodeManager demo ''#delimit cr'' True) = False \<and>
   notifications (snd (snd (do_execute demo ''#delimit cr'' True (demo_kernel 0 True)))) = []"
  by (simp add: do_execute_def is_complete_def Let_def demo_defs tokenizer_defs)

text \<open>
  C2 (amended): for every submission that is complete and not intercepted, with
  collaborators that leave the flag alone, \<open>do_execute\<close> sends the stream notification
  \<open>delimiter now ;\<close> or \<open>delimiter now cr\<close> exactly when \<open>silent\<close> is false and
  \<open>cm.ends_sc\<close> differs from the mode at the start; it sends it whatever the return
  code, and sends nothing else.
\<close>

theorem delimiter_notification:
  assumes "cm_is_complete E (CodeManager E code (sc_delimit_mode k))"
      and "magic E code k = (code', k2)"
      and "\<not> truthy (quit_early E (magics k2))"
      and "keeps_mode E"
  shows "notifications (snd (snd (do_execute E code silent k))) =
           (if \<not> silent \<and> cm_ends_sc E (CodeManager E code' (sc_delimit_mode k)) \<noteq> sc_delimit_mode k
            then [delimiter_message (cm_ends_sc E (CodeManager E code' (sc_delimit_mode k)))]
            else [])"
proof -
  obtain run md5 excl
    where g: "cm_get_text E (CodeManager E code' (sc_delimit_mode k2)) (conf k2) = (run, md5, excl)"
    by (cases "cm_get_text E (CodeManager E code' (sc_delimit_mode k2)) (conf k2)") auto
  obtain rc res k3 where d: "stata_do E run md5 excl k2 = ((rc, res), k3)"
    by (cases "stata_do E run md5 excl k2") auto
  have m2: "sc_delimit_mode k2 = sc_delimit_mode k"
    by (rule keeps_mode_magic [OF assms(4) assms(2)])
  have m4: "sc_delimit_mode (post E k3) = sc_delimit_mode k"
    using keeps_mode_post [OF assms(4), of k3] keeps_mode_stata_do [OF assms(4) d] m2 by simp
  note e = do_execute_dispatched [OF assms(1-3) g d refl refl, of silent]
  show ?thesis
    by (simp add: e m2 m4)
qed

theorem delimiter_notification_witness:
  "notifications (snd (snd (do_execute demo ''#delimit ;'' False (demo_kernel 198 False)))) =
     [(''stream'', PDict [(''text'', PStr ''delimiter now ;''), (''name'', PStr ''stdout'')])] \<and>
   notifications (snd (snd (do_execute demo ''di 1'' False (demo_kernel 0 False)))) = []"
  using delimiter_notification [of demo "''#delimit ;''" "demo_kernel 198 False" "''#delimit ;''"
          "demo_kernel 198 False" False]
        delimiter_notification [of demo "''di 1''" "demo_kernel 0 False" "''di 1''"
          "demo_kernel 0 False" False]
        keeps_mode_demo
  by (simp add: demo_defs tokenizer_defs delimiter_message_def)

text \<open>
  C3 (as stated): a structurally incomplete text is never reported as a failure by
  \<open>do_execute\<close>. It is: for the unterminated block \<open>foreach i in 1 2 {\<close> the
  completeness check fails and \<open>do_execute\<close> answers with status \<open>error\<close>.
\<close>

theorem incomplete_text_is_an_execute_error:
  "\<not> cm_is_complete demo (CodeManager demo ''foreach i in 1 2 {'' False) \<and>
   response_get (fst (do_execute demo ''foreach i in 1 2 {'' False (demo_kernel 0 False)))
     ''status'' = Some (PStr ''error'')"
  by (simp add: do_execute_def is_complete_def Let_def demo_defs tokenizer_defs)

text \<open>
  C3 (amended): for every submission whose text is structurally incomplete (unterminated
  braces or an open continuation at the end of the text, as the Tokenizer reads them),
  and more generally whenever the completeness check
  \<open>CodeManager(code, sc_delimit_mode).is_complete\<close> fails, \<open>do_is_complete\<close> returns
  the distinct status \<open>incomplete\<close> with the indent of four spaces, and \<open>do_execute\<close>
  returns the status \<open>error\<close> with the execution count. In both the body does nothing
  but the completeness check, one read of the flag and one \<open>CodeManager\<close>: no magic, no
  second \<open>CodeManager\<close>, no \<open>get_text\<close>, no dispatch, no notification, no write of the
  flag; and the kernel is left as it was.
\<close>

theorem incomplete_text_statuses:
  assumes "\<not> cm_is_complete E (CodeManager E code (sc_delimit_mode k)) \<or>
           (CodeManager E = tokenize \<and> cm_is_complete E = tk_is_complete \<and>
            (0 < unmatched_open code \<or> open_continuation code))"
  shows "do_is_complete E code k =
           (PDict [(''status'', PStr ''incomplete''), (''indent'', PStr ''    '')], k,
            [ReadMode (sc_delimit_mode k), NewCodeManager code (sc_delimit_mode k)]) \<and>
         do_execute E code silent k =
           (PDict [(''status'', PStr ''error''),
                   (''execution_count'', PInt (execution_count k))], k,
            [ReadMode (sc_delimit_mode k), NewCodeManager code (sc_delimit_mode k)]) \<and>
         fst (snd (do_execute E code silent k)) = k \<and>
         tokenized (snd (snd (do_execute E code silent k))) = [code] \<and>
         filter (\<lambda>e. e = GetText) (snd (snd (do_execute E code silent k))) = [] \<and>
         filter is_magic_call (snd (snd (do_execute E code silent k))) = [] \<and>
         dispatched (snd (snd (do_execute E code silent k))) = [] \<and>
         notifications (snd (snd (do_execute E code silent k))) = [] \<and>
         mode_writes (snd (snd (do_execute E code silent k))) = [] \<and>
         filter can_change_kernel (snd (snd (do_execute E code silent k))) = []"
proof -
  have n: "\<not> cm_is_complete E (CodeManager E code (sc_delimit_mode k))"
    using assms unterminated_is_incomplete [of code "sc_delimit_mode k"] by auto
  show ?thesis
    using n do_execute_incomplete [OF n, of silent]
    by (simp add: do_is_complete_def is_complete_def Let_def)
qed

theorem incomplete_text_statuses_witness:
  "do_is_complete demo ''foreach i in 1 2 {'' (demo_kernel 0 False) =
     (PDict [(''status'', PStr ''incomplete''), (''indent'', PStr ''    '')],
      demo_kernel 0 False, [ReadMode False, NewCodeManager ''foreach i in 1 2 {'' False]) \<and>
   do_execute demo ''foreach i in 1 2 {'' False (demo_kernel 0 False) =
     (PDict [(''status'', PStr ''error''), (''execution_count'', PInt 1)],
      demo_kernel 0 False, [ReadMode False, NewCodeManager ''foreach i in 1 2 {'' False]) \<and>
   fst (do_is_complete demo ''di 1 + ///'' (demo_kernel 0 True)) =
     PDict [(''status'', PStr ''incomplete''), (''indent'', PStr ''    '')] \<and>
   fst (do_execute demo ''di 1 + ///'' True (demo_kernel 0 True)) =
     PDict [(''status'', PStr ''error''), (''execution_count'', PInt 1)] \<and>
   tokenized (snd (snd (do_execute demo ''di 1 + ///'' True (demo_kernel 0 True)))) =
     [''di 1 + ///'']"
proof -
  have a: "CodeManager demo = tokenize \<and> cm_is_complete demo = tk_is_complete \<and>
           (0 < unmatched_open ''foreach i in 1 2 {'' \<or> open_continuation ''foreach i in 1 2 {'')"
    by (simp add: demo_def unmatched_open_def open_block_kinds)
  have b: "CodeManager demo = tokenize \<and> cm_is_complete demo = tk_is_complete \<and>
           (0 < unmatched_open ''di 1 + ///'' \<or> open_continuation ''di 1 + ///'')"
    by (simp add: demo_def tokenizer_defs)
  show ?thesis
    using incomplete_text_statuses [of demo "''foreach i in 1 2 {''" "demo_kernel 0 False" False,
            OF disjI2 [OF a]]
          incomplete_text_statuses [of demo "''di 1 + ///''" "demo_kernel 0 True" True,
            OF disjI2 [OF b]]
    by (simp add: demo_kernel_def)
qed

text \<open>
  C4: for every dispatched submission (complete text, no early quit of the magic), the
  status of the result of \<open>do_execute\<close> is \<open>error\<close> exactly when the return code
  \<open>rc\<close> of \<open>stata.do\<close> is non-zero and \<open>ok\<close> exactly when it is zero, and the
  result carries the execution count.
\<close>

theorem status_follows_return_code:
  assumes "cm_is_complete E (CodeManager E code (sc_delimit_mode k))"
      and "magic E code k = (code', k2)"
      and "\<not> truthy (quit_early E (magics k2))"
      and "cm_get_text E (CodeManager E code' (sc_delimit_mode k2)) (conf k2) = (txt, md5, excl)"
      and "stata_do E txt md5 excl k2 = ((rc, res), k3)"
  shows "(response_get (fst (do_execute E code silent k)) ''status'' = Some (PStr ''error''))
           = (rc \<noteq> 0) \<and>
         (response_get (fst (do_execute E code silent k)) ''status'' = Some (PStr ''ok''))
           = (rc = 0) \<and>
         response_get (fst (do_execute E code silent k)) ''execution_count''
           = Some (PInt (execution_count (post E k3)))"
  using do_execute_dispatched [OF assms refl refl, of silent] by simp

theorem status_follows_return_code_witness:
  "response_get (fst (do_execute demo ''di 1'' True (demo_kernel 0 False))) ''status''
     = Some (PStr ''ok'') \<and>
   response_get (fst (do_execute demo ''di 1'' True (demo_kernel 0 False))) ''execution_count''
     = Some (PInt 1) \<and>
   response_get (fst (do_execute demo ''di 1'' True (demo_kernel 601 False))) ''status''
     = Some (PStr ''error'')"
  using status_follows_return_code [of demo "''di 1''" "demo_kernel 0 False" "''di 1''"
          "demo_kernel 0 False" "''di 1'' @ [CHR 0x0A]" "''md5''" "[]" 0
          "''di 1'' @ [CHR 0x0A]" "demo_kernel 0 False" True]
        status_follows_return_code [of demo "''di 1''" "demo_kernel 601 False" "''di 1''"
          "demo_kernel 601 False" "''di 1'' @ [CHR 0x0A]" "''md5''" "[]" 601
          "''di 1'' @ [CHR 0x0A]" "demo_kernel 601 False" True]
  by (simp add: demo_defs tokenizer_defs)

text \<open>
  C5: when the magic leaves a true \<open>quit_early\<close>, \<open>do_execute\<close> returns that object
  itself; after the call of the magic its body does nothing more: no \<open>CodeManager\<close> is
  built for chunking, \<open>get_text\<close> and \<open>stata.do\<close> are not called and the flag is not
  written. The only text tokenized is the one of the completeness check, before the magic.
\<close>

theorem interception_bypasses_the_core:
  assumes "cm_is_complete E (CodeManager E code (sc_delimit_mode k))"
      and "magic E code k = (code', k2)"
      and "truthy (quit_early E (magics k2))"
  shows "fst (do_execute E code silent k) = quit_early E (magics k2) \<and>
         fst (snd (do_execute E code silent k)) = k2 \<and>
         after_magic (snd (snd (do_execute E code silent k))) = [] \<and>
         dispatched (snd (snd (do_execute E code silent k))) = [] \<and>
         filter (\<lambda>e. e = GetText) (snd (snd (do_execute E code silent k))) = [] \<and>
         tokenized (snd (snd (do_execute E code silent k))) = [code] \<and>
         mode_writes (snd (snd (do_execute E code silent k))) = []"
  using do_execute_intercepted [OF assms, of silent] by (simp add: after_magic_def)

theorem interception_bypasses_the_core_witness:
  "fst (do_execute demo ''%help'' False (demo_kernel 0 False)) =
     PDict [(''execution_count'', PInt 1), (''status'', PStr ''ok''),
            (''payload'', PList []), (''user_expressions'', PDict [])] \<and>
   after_magic (snd (snd (do_execute demo ''%help'' False (demo_kernel 0 False)))) = [] \<and>
   dispatched (snd (snd (do_execute demo ''%help'' False (demo_kernel 0 False)))) = [] \<and>
   tokenized (snd (snd (do_execute demo ''%help'' False (demo_kernel 0 False)))) = [''%help'']"
  using interception_bypasses_the_core [of demo "''%help''" "demo_kernel 0 False" "''%help''"
          "(demo_kernel 0 False)\<lparr>magics :=
             PDict [(''execution_count'', PInt 1), (''status'', PStr ''ok''),
                    (''payload'', PList []), (''user_expressions'', PDict [])]\<rparr>" False]
  by (simp add: demo_defs tokenizer_defs)

text \<open>
  C6: \<open>is_complete\<close> and \<open>do_is_complete\<close> have no side effect: for every text and
  every kernel they return the kernel unchanged (so \<open>sc_delimit_mode\<close> and \<open>graphs\<close>
  are unchanged), they dispatch nothing, send nothing and call nothing that is given the
  kernel; all they do is read the flag and build a \<open>CodeManager\<close>.
\<close>

theorem is_complete_has_no_side_effect:
  "fst (snd (is_complete E code k)) = k \<and>
   fst (snd (do_is_complete E code k)) = k \<and>
   sc_delimit_mode (fst (snd (do_is_complete E code k))) = sc_delimit_mode k \<and>
   graphs (fst (snd (do_is_complete E code k))) = graphs k \<and>
   snd (snd (is_complete E code k)) =
     [ReadMode (sc_delimit_mode k), NewCodeManager code (sc_delimit_mode k)] \<and>
   snd (snd (do_is_complete E code k)) = snd (snd (is_complete E code k)) \<and>
   dispatched (snd (snd (do_is_complete E code k))) = [] \<and>
   notifications (snd (snd (do_is_complete E code k))) = [] \<and>
   filter can_change_kernel (snd (snd (do_is_complete E code k))) = []"
  by (simp add: is_complete_def do_is_complete_def Let_def)

text \<open>
  C9: when the statements of a plan before position \<open>i\<close> complete normally and the
  statement at \<open>i\<close> fails, the Session Dispatcher reports an overall status other than
  \<open>Completed\<close>, records the statements before \<open>i\<close> as succeeded, the one at \<open>i\<close> as
  failed and all later ones as unattempted, and has sent the external process nothing
  after the failing statement; in a plan of three statements whose second fails, the
  record is one succeeded, one failed, one unattempted.
\<close>

theorem halt_on_first_error:
  assumes "i < length plan"
      and "run_ok send x (take i plan) = Some x'"
      and "\<not> normal_reply (fst (send x' (plan ! i)))"
  shows "status (fst (dispatch send x plan)) \<noteq> Completed \<and>
         outcomes (fst (dispatch send x plan)) =
           replicate i Succeeded @ Failed # replicate (length plan - Suc i) Unattempted \<and>
         sent (fst (dispatch send x plan)) = take (Suc i) plan \<and>
         snd (dispatch send x plan) = snd (send x' (plan ! i)) \<and>
         (length plan = 3 \<and> i = 1 \<longrightarrow>
            outcomes (fst (dispatch send x plan)) = [Succeeded, Failed, Unattempted])"
proof -
  have main: "status (fst (dispatch send x plan)) \<noteq> Completed \<and>
         outcomes (fst (dispatch send x plan)) =
           replicate i Succeeded @ Failed # replicate (length plan - Suc i) Unattempted \<and>
         sent (fst (dispatch send x plan)) = take (Suc i) plan \<and>
         snd (dispatch send x plan) = snd (send x' (plan ! i))"
    using assms
  proof (induction plan arbitrary: i x)
    case Nil
    then show ?case by simp
  next
    case (Cons s ss)
    show ?case
    proof (cases i)
      case 0
      with Cons.prems have "x' = x" and f: "\<not> normal_reply (fst (send x s))" by simp_all
      then show ?thesis using 0
        by (cases "send x s"; cases "fst (send x s)") (auto split: reply.splits)
    next
      case (Suc j)
      with Cons.prems have r: "run_ok send x (s # take j ss) = Some x'" by simp
      from run_ok_Cons [OF r] obtain out evs x1
        where s1: "send x s = (Reply 0 out evs, x1)" and r1: "run_ok send x1 (take j ss) = Some x'"
        by blast
      from Cons.prems Suc have j: "j < length ss" and f: "\<not> normal_reply (fst (send x' (ss ! j)))"
        by simp_all
      from Cons.IH [OF j r1 f] show ?thesis
        using s1 Suc by (cases "dispatch send x1 ss") simp
    qed
  qed
  then show ?thesis by (auto simp: numeral_3_eq_3)
qed

theorem halt_on_first_error_witness:
  "status (fst (dispatch echo_send [] [''di 1'', ''error'', ''di 3''])) = Errored 198 \<and>
   outcomes (fst (dispatch echo_send [] [''di 1'', ''error'', ''di 3''])) =
     [Succeeded, Failed, Unattempted] \<and>
   sent (fst (dispatch echo_send [] [''di 1'', ''error'', ''di 3''])) = [''di 1'', ''error''] \<and>
   snd (dispatch echo_send [] [''di 1'', ''error'', ''di 3'']) = [''di 1'', ''error'']"
  using halt_on_first_error [of 1 "[''di 1'', ''error'', ''di 3'']" echo_send "[]" "[''di 1'']"]
  by (simp add: echo_send_def)

text \<open>
  C10: for every dispatched submission the result of \<open>do_execute\<close> is, when the return
  code is zero, the dictionary with \<open>execution_count\<close>, \<open>status\<close> = \<open>ok\<close>, an empty
  \<open>payload\<close> list and an empty \<open>user_expressions\<close> dictionary, and, when it is not
  zero, the dictionary with \<open>execution_count\<close> and \<open>status\<close> = \<open>error\<close> only.
\<close>

theorem result_shape:
  assumes "cm_is_complete E (CodeManager E code (sc_delimit_mode k))"
      and "magic E code k = (code', k2)"
      and "\<not> truthy (quit_early E (magics k2))"
      and "cm_get_text E (CodeManager E code' (sc_delimit_mode k2)) (conf k2) = (txt, md5, excl)"
      and "stata_do E txt md5 excl k2 = ((rc, res), k3)"
  shows "fst (do_execute E code silent k) =
           (if rc = 0
            then PDict [(''execution_count'', PInt (execution_count (post E k3))),
                        (''status'', PStr ''ok''),
                        (''payload'', PList []),
                        (''user_expressions'', PDict [])]
            else PDict [(''execution_count'', PInt (execution_count (post E k3))),
                        (''status'', PStr ''error'')])"
  using do_execute_dispatched [OF assms refl refl, of silent] by simp

theorem result_shape_witness:
  "fst (do_execute demo ''di 1'' False (demo_kernel 0 False)) =
     PDict [(''execution_count'', PInt 1), (''status'', PStr ''ok''),
            (''payload'', PList []), (''user_expressions'', PDict [])] \<and>
   fst (do_execute demo ''di 1'' False (demo_kernel 198 False)) =
     PDict [(''execution_count'', PInt 1), (''status'', PStr ''error'')]"
  using result_shape [of demo "''di 1''" "demo_kernel 0 False" "''di 1''" "demo_kernel 0 False"
          "''di 1'' @ [CHR 0x0A]" "''md5''" "[]" 0 "''di 1'' @ [CHR 0x0A]" "demo_kernel 0 False" False]
        result_shape [of demo "''di 1''" "demo_kernel 198 False" "''di 1''" "demo_kernel 198 False"
          "''di 1'' @ [CHR 0x0A]" "''md5''" "[]" 198 "''di 1'' @ [CHR 0x0A]" "demo_kernel 198 False" False]
  by (simp add: demo_defs tokenizer_defs)

end
